theory Spec2Isabelle
  imports Main
begin

section \<open>The control script \<open>main.py\<close> of the NM3 Pico driver demonstrator\<close>

text \<open>
  \<open>src/main.py\<close> is a module of five statements: a string literal (lines 12 to 29, which
  holds an earlier version of the program as text) and four statements that use the
  acoustic-modem driver (lines 30 to 33). The driver module \<open>nm3_pico_driver\<close> is not part
  of the repository, so a run is modelled against an arbitrary driver: a function that,
  from the calls made so far, answers the next call with a value or an exception.

  The header of the file names the interpreter (MicroPython v1.22.1 on a Pico W). A module
  starts in a namespace of global names; names not found there are looked up among the
  builtins. The starting namespace is a parameter of a run, because \<open>boot.py\<close> and
  \<open>main.py\<close> share it on the target and a test bench may fill it.
\<close>

subsection \<open>Values and exceptions\<close>

datatype pyval =
    VNone
  | VBool bool
  | VInt int
  | VStr string
  | VFloat string   \<comment> \<open>a float, kept as the text \<open>str\<close> gives for it\<close>
  | VDriverClass    \<comment> \<open>the class \<open>NM3Driver\<close>\<close>
  | VDriver nat     \<comment> \<open>a driver instance, numbered in order of construction\<close>
  | VPrint          \<comment> \<open>the builtin function \<open>print\<close>\<close>

datatype exn =
    NameError string        \<comment> \<open>name is not defined\<close>
  | TypeError string        \<comment> \<open>object is not callable\<close>
  | AttributeError string   \<comment> \<open>object has no such attribute\<close>
  | DriverError string      \<comment> \<open>any exception raised inside the driver\<close>

subsection \<open>The driver as an external collaborator\<close>

datatype drv_call =
    Construct "pyval list"            \<comment> \<open>\<open>NM3Driver(args)\<close>\<close>
  | Method nat string "pyval list"    \<comment> \<open>\<open>instance.method(args)\<close>\<close>

type_synonym response = "exn + pyval"

type_synonym driver = "drv_call list \<Rightarrow> drv_call \<Rightarrow> response"

fun method_of :: "drv_call \<Rightarrow> string" where
  "method_of (Construct args) = ''NM3Driver''"
| "method_of (Method k m args) = m"

fun receiver_of :: "drv_call \<Rightarrow> nat option" where
  "receiver_of (Construct args) = None"
| "receiver_of (Method k m args) = Some k"

subsection \<open>The state of a run\<close>

record state =
  globals :: "string \<rightharpoonup> pyval"            \<comment> \<open>the module namespace\<close>
  stdout :: string                          \<comment> \<open>everything printed so far\<close>
  trace :: "(drv_call \<times> response) list"    \<comment> \<open>driver calls so far, with their answers\<close>
  objs :: nat                               \<comment> \<open>driver instances constructed so far\<close>

type_synonym 'a action = "state \<Rightarrow> (exn + 'a) \<times> state"

definition ret :: "'a \<Rightarrow> 'a action" where
  "ret x s = (Inr x, s)"

definition raise :: "exn \<Rightarrow> 'a action" where
  "raise e s = (Inl e, s)"

text \<open>Sequencing: an exception ends the evaluation and keeps the effects made before it.\<close>

definition bind :: "'a action \<Rightarrow> ('a \<Rightarrow> 'b action) \<Rightarrow> 'b action" where
  "bind m f s = (case m s of (Inl e, s') \<Rightarrow> (Inl e, s') | (Inr x, s') \<Rightarrow> f x s')"

subsection \<open>Text conversion and \<open>print\<close>\<close>

definition digit :: "nat \<Rightarrow> char" where
  "digit n = ''0123456789'' ! n"

fun dec_nat :: "nat \<Rightarrow> string" where
  "dec_nat n = (if n < 10 then [digit n] else dec_nat (n div 10) @ [digit (n mod 10)])"

declare dec_nat.simps [simp del]

fun py_str :: "pyval \<Rightarrow> string" where
  "py_str VNone = ''None''"
| "py_str (VBool b) = (if b then ''True'' else ''False'')"
| "py_str (VInt i) = (if i < 0 then ''-'' @ dec_nat (nat (- i)) else dec_nat (nat i))"
| "py_str (VStr t) = t"
| "py_str (VFloat t) = t"
| "py_str VDriverClass = ''<class NM3Driver>''"
| "py_str (VDriver k) = ''<NM3Driver object>''"
| "py_str VPrint = ''<function>''"

text \<open>\<open>print(a, b, ...)\<close> writes the texts of its arguments, separated by one space, and a newline.\<close>

fun print_text :: "pyval list \<Rightarrow> string" where
  "print_text [] = [CHR 0x0A]"
| "print_text [v] = py_str v @ [CHR 0x0A]"
| "print_text (v # w # vs) = py_str v @ '' '' @ print_text (w # vs)"

subsection \<open>Names, calls and statements\<close>

definition builtins :: "string \<rightharpoonup> pyval" where
  "builtins = [''print'' \<mapsto> VPrint]"

definition name :: "string \<Rightarrow> pyval action" where
  "name x s =
     (case globals s x of
        Some v \<Rightarrow> (Inr v, s)
      | None \<Rightarrow> (case builtins x of Some v \<Rightarrow> (Inr v, s) | None \<Rightarrow> (Inl (NameError x), s)))"

definition lit :: "pyval \<Rightarrow> pyval action" where
  "lit v = ret v"

definition ask :: "driver \<Rightarrow> drv_call \<Rightarrow> response action" where
  "ask d c s = (let r = d (map fst (trace s)) c in (Inr r, s\<lparr>trace := trace s @ [(c, r)]\<rparr>))"

fun apply_value :: "driver \<Rightarrow> pyval \<Rightarrow> pyval list \<Rightarrow> pyval action" where
  "apply_value d VDriverClass vs =
     bind (ask d (Construct vs)) (\<lambda>r. case r of
       Inl e \<Rightarrow> raise e
     | Inr u \<Rightarrow> (\<lambda>s. (Inr (VDriver (objs s)), s\<lparr>objs := Suc (objs s)\<rparr>)))"
| "apply_value d VPrint vs = (\<lambda>s. (Inr VNone, s\<lparr>stdout := stdout s @ print_text vs\<rparr>))"
| "apply_value d v vs = raise (TypeError (py_str v))"

fun eval_args :: "pyval action list \<Rightarrow> pyval list action" where
  "eval_args [] = ret []"
| "eval_args (a # as) = bind a (\<lambda>v. bind (eval_args as) (\<lambda>vs. ret (v # vs)))"

definition call :: "driver \<Rightarrow> pyval action \<Rightarrow> pyval action list \<Rightarrow> pyval action" where
  "call d f args = bind f (\<lambda>fv. bind (eval_args args) (\<lambda>vs. apply_value d fv vs))"

fun invoke :: "driver \<Rightarrow> pyval \<Rightarrow> string \<Rightarrow> pyval action list \<Rightarrow> pyval action" where
  "invoke d (VDriver k) m args =
     bind (eval_args args) (\<lambda>vs. bind (ask d (Method k m vs)) (\<lambda>r. case r of
       Inl e \<Rightarrow> raise e
     | Inr v \<Rightarrow> ret v))"
| "invoke d v m args = raise (AttributeError m)"

definition method_call ::
  "driver \<Rightarrow> pyval action \<Rightarrow> string \<Rightarrow> pyval action list \<Rightarrow> pyval action" where
  "method_call d obj m args = bind obj (\<lambda>ov. invoke d ov m args)"

definition expr_stmt :: "pyval action \<Rightarrow> unit action" where
  "expr_stmt e = bind e (\<lambda>v. ret ())"

definition assign :: "string \<Rightarrow> pyval action \<Rightarrow> unit action" where
  "assign x e = bind e (\<lambda>v s. (Inr (), s\<lparr>globals := (globals s)(x \<mapsto> v)\<rparr>))"

fun exec :: "unit action list \<Rightarrow> unit action" where
  "exec [] = ret ()"
| "exec (c # cs) = bind c (\<lambda>u. exec cs)"

subsection \<open>The script\<close>

text \<open>The text between the triple quotes of lines 12 and 29, line by line.\<close>

definition disabled_block :: "string list" where
  \<open>disabled_block =
    [''from nm3_pico_driver import NM3Driver'',
     ''message = "Ocean Lab Test"'',
     ''modem = 169'',
     '''',
     ''pico = NM3Driver()'',
     ''pico.connect()'',
     ''#addr = pico.get_address()'',
     ''#print(f"Address: {addr}")'',
     '''',
     ''voltage = pico.get_voltage()'',
     ''print(f"Voltage: {voltage}")'',
     ''distance = str(pico.ping(modem))'',
     '''',
     ''print(f"Distance to modem 169: {distance}")'',
     ''send_test = pico.send_unicast_message(modem, distance)'',
     ''print(f"Sending message: {message}. To modem: {modem}. Returning: {send_test}.")'']\<close>

definition unlines :: "string list \<Rightarrow> string" where
  "unlines ls = concat (map (\<lambda>l. l @ [CHR 0x0A]) ls)"

definition stmt_literal :: "unit action" where
  "stmt_literal = expr_stmt (lit (VStr (CHR 0x0A # unlines disabled_block)))"

definition stmt_construct :: "driver \<Rightarrow> unit action" where
  "stmt_construct d = assign ''pico'' (call d (name ''NM3Driver'') [])"

definition stmt_connect :: "driver \<Rightarrow> unit action" where
  "stmt_connect d = expr_stmt (method_call d (name ''pico'') ''connect'' [])"

definition stmt_ping :: "driver \<Rightarrow> unit action" where
  "stmt_ping d =
     expr_stmt (call d (name ''print'')
       [lit (VStr ''Ping 169''), method_call d (name ''pico'') ''ping'' [lit (VInt 169)]])"

definition stmt_send :: "driver \<Rightarrow> unit action" where
  "stmt_send d =
     expr_stmt (method_call d (name ''pico'') ''send_unicast_message''
       [lit (VInt 169), lit (VStr ''Test'')])"

definition main :: "driver \<Rightarrow> unit action" where
  "main d = exec [stmt_literal, stmt_construct d, stmt_connect d, stmt_ping d, stmt_send d]"

definition start :: "(string \<rightharpoonup> pyval) \<Rightarrow> state" where
  "start g = \<lparr>globals = g, stdout = [], trace = [], objs = 0\<rparr>"

definition run :: "(string \<rightharpoonup> pyval) \<Rightarrow> driver \<Rightarrow> (exn + unit) \<times> state" where
  "run g d = main d (start g)"

definition outcome :: "(string \<rightharpoonup> pyval) \<Rightarrow> driver \<Rightarrow> exn + unit" where
  "outcome g d = fst (run g d)"

definition final :: "(string \<rightharpoonup> pyval) \<Rightarrow> driver \<Rightarrow> state" where
  "final g d = snd (run g d)"

subsection \<open>Observations on a run\<close>

definition calls :: "state \<Rightarrow> drv_call list" where
  "calls s = map fst (trace s)"

definition answers :: "state \<Rightarrow> response list" where
  "answers s = map snd (trace s)"

text \<open>How often a method was called (the constructor counts under the name of the class).\<close>

definition called :: "string \<Rightarrow> state \<Rightarrow> nat" where
  "called m s = length (filter (\<lambda>c. method_of c = m) (calls s))"

fun returned :: "response \<Rightarrow> bool" where
  "returned (Inl e) = False"
| "returned (Inr v) = True"

definition all_succeeded :: "state \<Rightarrow> bool" where
  "all_succeeded s = list_all returned (answers s)"

definition ping_line :: "pyval \<Rightarrow> string" where
  "ping_line v = ''Ping 169 '' @ py_str v @ [CHR 0x0A]"

text \<open>
  The names that only the text inside the string literal assigns or imports
  (\<open>pico\<close> is left out: line 30 assigns it too).
\<close>

definition literal_names :: "string list" where
  "literal_names =
     [''NM3Driver'', ''message'', ''modem'', ''voltage'', ''distance'', ''send_test'']"

subsection \<open>Namespaces and drivers to run the script against\<close>

text \<open>A namespace in which \<open>NM3Driver\<close> has been imported before the script starts.\<close>

definition imported_ns :: "string \<rightharpoonup> pyval" where
  "imported_ns = [''NM3Driver'' \<mapsto> VDriverClass]"

text \<open>A driver whose calls all return: the range is 42, the voltage 3.3, a send answers 7.\<close>

definition ok_driver :: driver where
  "ok_driver h c =
     (if method_of c = ''ping'' then Inr (VInt 42)
      else if method_of c = ''get_voltage'' then Inr (VFloat ''3.3'')
      else if method_of c = ''send_unicast_message'' then Inr (VInt 7)
      else Inr VNone)"

text \<open>The same driver with another supply voltage.\<close>

definition low_battery_driver :: driver where
  "low_battery_driver h c =
     (if method_of c = ''get_voltage'' then Inr (VFloat ''2.9'') else ok_driver h c)"

text \<open>A driver whose \<open>connect\<close> raises, and one whose \<open>ping\<close> raises.\<close>

definition no_link_driver :: driver where
  "no_link_driver h c =
     (if method_of c = ''connect'' then Inl (DriverError ''OSError'') else ok_driver h c)"

definition deaf_driver :: driver where
  "deaf_driver h c =
     (if method_of c = ''ping'' then Inl (DriverError ''timeout'') else ok_driver h c)"

section \<open>The paths of a run\<close>

lemmas script_defs = final_def outcome_def run_def main_def start_def stmt_literal_def
  stmt_construct_def stmt_connect_def stmt_ping_def stmt_send_def expr_stmt_def assign_def
  call_def method_call_def name_def lit_def ask_def bind_def ret_def raise_def builtins_def
  Let_def

text \<open>
  The script has no branch of its own, so a run is decided by what the two names
  \<open>NM3Driver\<close> and \<open>print\<close> are bound to and by the first driver call that raises.
  Every run follows one of twelve paths; each is given with its outcome and final state.
\<close>

lemma run_paths:
  obtains
    (unbound) "g ''NM3Driver'' = None"
    "run g d = (Inl (NameError ''NM3Driver''), start g)"
  | (not_callable) f where "g ''NM3Driver'' = Some f" "f \<noteq> VDriverClass" "f \<noteq> VPrint"
    "run g d = (Inl (TypeError (py_str f)), start g)"
  | (print_bound) "g ''NM3Driver'' = Some VPrint"
    "run g d = (Inl (AttributeError ''connect''),
       \<lparr>globals = g(''pico'' \<mapsto> VNone), stdout = [CHR 0x0A], trace = [], objs = 0\<rparr>)"
  | (construct_fails) e where "g ''NM3Driver'' = Some VDriverClass"
    "d [] (Construct []) = Inl e"
    "run g d = (Inl e,
       \<lparr>globals = g, stdout = [], trace = [(Construct [], Inl e)], objs = 0\<rparr>)"
  | (connect_fails) u0 e where "g ''NM3Driver'' = Some VDriverClass"
    "d [] (Construct []) = Inr u0"
    "d [Construct []] (Method 0 ''connect'' []) = Inl e"
    "run g d = (Inl e,
       \<lparr>globals = g(''pico'' \<mapsto> VDriver 0), stdout = [],
        trace = [(Construct [], Inr u0), (Method 0 ''connect'' [], Inl e)], objs = 1\<rparr>)"
  | (ping_fails) u0 u1 e where "g ''NM3Driver'' = Some VDriverClass"
    "d [] (Construct []) = Inr u0"
    "d [Construct []] (Method 0 ''connect'' []) = Inr u1"
    "d [Construct [], Method 0 ''connect'' []] (Method 0 ''ping'' [VInt 169]) = Inl e"
    "run g d = (Inl e,
       \<lparr>globals = g(''pico'' \<mapsto> VDriver 0), stdout = [],
        trace = [(Construct [], Inr u0), (Method 0 ''connect'' [], Inr u1),
                 (Method 0 ''ping'' [VInt 169], Inl e)], objs = 1\<rparr>)"
  | (print_unusable) u0 u1 v p where "g ''NM3Driver'' = Some VDriverClass" "g ''print'' = Some p"
    "p \<noteq> VDriverClass" "p \<noteq> VPrint"
    "d [] (Construct []) = Inr u0"
    "d [Construct []] (Method 0 ''connect'' []) = Inr u1"
    "d [Construct [], Method 0 ''connect'' []] (Method 0 ''ping'' [VInt 169]) = Inr v"
    "run g d = (Inl (TypeError (py_str p)),
       \<lparr>globals = g(''pico'' \<mapsto> VDriver 0), stdout = [],
        trace = [(Construct [], Inr u0), (Method 0 ''connect'' [], Inr u1),
                 (Method 0 ''ping'' [VInt 169], Inr v)], objs = 1\<rparr>)"
  | (second_construct_fails) u0 u1 v e where "g ''NM3Driver'' = Some VDriverClass" "g ''print'' = Some VDriverClass"
    "d [] (Construct []) = Inr u0"
    "d [Construct []] (Method 0 ''connect'' []) = Inr u1"
    "d [Construct [], Method 0 ''connect'' []] (Method 0 ''ping'' [VInt 169]) = Inr v"
    "d [Construct [], Method 0 ''connect'' [], Method 0 ''ping'' [VInt 169]]
       (Construct [VStr ''Ping 169'', v]) = Inl e"
    "run g d = (Inl e,
       \<lparr>globals = g(''pico'' \<mapsto> VDriver 0), stdout = [],
        trace = [(Construct [], Inr u0), (Method 0 ''connect'' [], Inr u1),
                 (Method 0 ''ping'' [VInt 169], Inr v),
                 (Construct [VStr ''Ping 169'', v], Inl e)], objs = 1\<rparr>)"
  | (second_construct_send_fails) u0 u1 v u2 e where "g ''NM3Driver'' = Some VDriverClass" "g ''print'' = Some VDriverClass"
    "d [] (Construct []) = Inr u0"
    "d [Construct []] (Method 0 ''connect'' []) = Inr u1"
    "d [Construct [], Method 0 ''connect'' []] (Method 0 ''ping'' [VInt 169]) = Inr v"
    "d [Construct [], Method 0 ''connect'' [], Method 0 ''ping'' [VInt 169]]
       (Construct [VStr ''Ping 169'', v]) = Inr u2"
    "d [Construct [], Method 0 ''connect'' [], Method 0 ''ping'' [VInt 169],
        Construct [VStr ''Ping 169'', v]]
       (Method 0 ''send_unicast_message'' [VInt 169, VStr ''Test'']) = Inl e"
    "run g d = (Inl e,
       \<lparr>globals = g(''pico'' \<mapsto> VDriver 0), stdout = [],
        trace = [(Construct [], Inr u0), (Method 0 ''connect'' [], Inr u1),
                 (Method 0 ''ping'' [VInt 169], Inr v),
                 (Construct [VStr ''Ping 169'', v], Inr u2),
                 (Method 0 ''send_unicast_message'' [VInt 169, VStr ''Test''], Inl e)],
        objs = 2\<rparr>)"
  | (second_construct_completed) u0 u1 v u2 r where "g ''NM3Driver'' = Some VDriverClass" "g ''print'' = Some VDriverClass"
    "d [] (Construct []) = Inr u0"
    "d [Construct []] (Method 0 ''connect'' []) = Inr u1"
    "d [Construct [], Method 0 ''connect'' []] (Method 0 ''ping'' [VInt 169]) = Inr v"
    "d [Construct [], Method 0 ''connect'' [], Method 0 ''ping'' [VInt 169]]
       (Construct [VStr ''Ping 169'', v]) = Inr u2"
    "d [Construct [], Method 0 ''connect'' [], Method 0 ''ping'' [VInt 169],
        Construct [VStr ''Ping 169'', v]]
       (Method 0 ''send_unicast_message'' [VInt 169, VStr ''Test'']) = Inr r"
    "run g d = (Inr (),
       \<lparr>globals = g(''pico'' \<mapsto> VDriver 0), stdout = [],
        trace = [(Construct [], Inr u0), (Method 0 ''connect'' [], Inr u1),
                 (Method 0 ''ping'' [VInt 169], Inr v),
                 (Construct [VStr ''Ping 169'', v], Inr u2),
                 (Method 0 ''send_unicast_message'' [VInt 169, VStr ''Test''], Inr r)],
        objs = 2\<rparr>)"
  | (send_fails) u0 u1 v e where "g ''NM3Driver'' = Some VDriverClass"
    "g ''print'' = None \<or> g ''print'' = Some VPrint"
    "d [] (Construct []) = Inr u0"
    "d [Construct []] (Method 0 ''connect'' []) = Inr u1"
    "d [Construct [], Method 0 ''connect'' []] (Method 0 ''ping'' [VInt 169]) = Inr v"
    "d [Construct [], Method 0 ''connect'' [], Method 0 ''ping'' [VInt 169]]
       (Method 0 ''send_unicast_message'' [VInt 169, VStr ''Test'']) = Inl e"
    "run g d = (Inl e,
       \<lparr>globals = g(''pico'' \<mapsto> VDriver 0), stdout = ping_line v,
        trace = [(Construct [], Inr u0), (Method 0 ''connect'' [], Inr u1),
                 (Method 0 ''ping'' [VInt 169], Inr v),
                 (Method 0 ''send_unicast_message'' [VInt 169, VStr ''Test''], Inl e)],
        objs = 1\<rparr>)"
  | (completed) u0 u1 v r where "g ''NM3Driver'' = Some VDriverClass"
    "g ''print'' = None \<or> g ''print'' = Some VPrint"
    "d [] (Construct []) = Inr u0"
    "d [Construct []] (Method 0 ''connect'' []) = Inr u1"
    "d [Construct [], Method 0 ''connect'' []] (Method 0 ''ping'' [VInt 169]) = Inr v"
    "d [Construct [], Method 0 ''connect'' [], Method 0 ''ping'' [VInt 169]]
       (Method 0 ''send_unicast_message'' [VInt 169, VStr ''Test'']) = Inr r"
    "run g d = (Inr (),
       \<lparr>globals = g(''pico'' \<mapsto> VDriver 0), stdout = ping_line v,
        trace = [(Construct [], Inr u0), (Method 0 ''connect'' [], Inr u1),
                 (Method 0 ''ping'' [VInt 169], Inr v),
                 (Method 0 ''send_unicast_message'' [VInt 169, VStr ''Test''], Inr r)],
        objs = 1\<rparr>)"
proof (cases "g ''NM3Driver''")
  case None
  then show ?thesis using unbound by (simp add: script_defs)
next
  case (Some f)
  show ?thesis
  proof (cases "f = VDriverClass")
    case False
    then show ?thesis using Some not_callable print_bound by (cases f) (simp_all add: script_defs)
  next
    case True
    note cls = Some [unfolded True]
    show ?thesis
    proof (cases "d [] (Construct [])")
      case (Inl e)
      then show ?thesis using cls construct_fails by (simp add: script_defs)
    next
      case r0: (Inr u0)
      show ?thesis
      proof (cases "d [Construct []] (Method 0 ''connect'' [])")
        case (Inl e)
        then show ?thesis using cls r0 connect_fails by (simp add: script_defs)
      next
        case r1: (Inr u1)
        show ?thesis
        proof (cases "d [Construct [], Method 0 ''connect'' []] (Method 0 ''ping'' [VInt 169])")
          case (Inl e)
          then show ?thesis using cls r0 r1 ping_fails
            by (cases "g ''print''") (simp_all add: script_defs)
        next
          case r2: (Inr v)
          note pre = cls r0 r1 r2
          have builtin: ?thesis
            if "g ''print'' = None \<or> g ''print'' = Some VPrint"
          proof (cases "d [Construct [], Method 0 ''connect'' [], Method 0 ''ping'' [VInt 169]]
                          (Method 0 ''send_unicast_message'' [VInt 169, VStr ''Test''])")
            case (Inl e)
            then show ?thesis using pre that(1) send_fails
              by (auto simp: script_defs ping_line_def)
          next
            case (Inr r)
            then show ?thesis using pre that(1) completed
              by (auto simp: script_defs ping_line_def)
          qed
          show ?thesis
          proof (cases "g ''print''")
            case None
            then show ?thesis using builtin by simp
          next
            case (Some p)
            show ?thesis
            proof (cases "p = VPrint \<or> p = VDriverClass")
              case False
              then show ?thesis using pre Some print_unusable
                by (cases p) (simp_all add: script_defs)
            next
              case True
              then show ?thesis
              proof
                assume "p = VPrint"
                then show ?thesis using builtin Some by simp
              next
                assume p: "p = VDriverClass"
                show ?thesis
                proof (cases "d [Construct [], Method 0 ''connect'' [],
                                 Method 0 ''ping'' [VInt 169]]
                                (Construct [VStr ''Ping 169'', v])")
                  case (Inl e)
                  then show ?thesis
                    using pre Some p second_construct_fails
                    by (simp add: script_defs)
                next
                  case r3: (Inr u2)
                  show ?thesis
                  proof (cases "d [Construct [], Method 0 ''connect'' [],
                                   Method 0 ''ping'' [VInt 169],
                                   Construct [VStr ''Ping 169'', v]]
                                  (Method 0 ''send_unicast_message'' [VInt 169, VStr ''Test''])")
                    case (Inl e)
                    then show ?thesis
                      using pre Some p r3 second_construct_send_fails
                      by (simp add: script_defs)
                  next
                    case (Inr r)
                    then show ?thesis
                      using pre Some p r3 second_construct_completed
                      by (simp add: script_defs)
                  qed
                qed
              qed
            qed
          qed
        qed
      qed
    qed
  qed
qed

section \<open>Runs against the sample drivers\<close>

lemma run_ok_driver:
  "run imported_ns ok_driver =
     (Inr (),
      \<lparr>globals = imported_ns(''pico'' \<mapsto> VDriver 0), stdout = ''Ping 169 42'' @ [CHR 0x0A],
       trace = [(Construct [], Inr VNone), (Method 0 ''connect'' [], Inr VNone),
                (Method 0 ''ping'' [VInt 169], Inr (VInt 42)),
                (Method 0 ''send_unicast_message'' [VInt 169, VStr ''Test''], Inr (VInt 7))],
       objs = 1\<rparr>)"
  by (simp add: script_defs imported_ns_def ok_driver_def dec_nat.simps digit_def)

lemma run_low_battery_driver:
  "run imported_ns low_battery_driver = run imported_ns ok_driver"
  by (simp add: script_defs imported_ns_def ok_driver_def low_battery_driver_def)

lemma run_no_link_driver:
  "run imported_ns no_link_driver =
     (Inl (DriverError ''OSError''),
      \<lparr>globals = imported_ns(''pico'' \<mapsto> VDriver 0), stdout = [],
       trace = [(Construct [], Inr VNone),
                (Method 0 ''connect'' [], Inl (DriverError ''OSError''))],
       objs = 1\<rparr>)"
  by (simp add: script_defs imported_ns_def ok_driver_def no_link_driver_def)

lemma run_deaf_driver:
  "run imported_ns deaf_driver =
     (Inl (DriverError ''timeout''),
      \<lparr>globals = imported_ns(''pico'' \<mapsto> VDriver 0), stdout = [],
       trace = [(Construct [], Inr VNone), (Method 0 ''connect'' [], Inr VNone),
                (Method 0 ''ping'' [VInt 169], Inl (DriverError ''timeout''))],
       objs = 1\<rparr>)"
  by (simp add: script_defs imported_ns_def ok_driver_def deaf_driver_def)

lemma run_fresh:
  "run Map.empty d = (Inl (NameError ''NM3Driver''), start Map.empty)"
  by (simp add: script_defs)

lemma run_unbound:
  "g ''NM3Driver'' = None \<Longrightarrow> run g d = (Inl (NameError ''NM3Driver''), start g)"
  by (simp add: script_defs)

lemma never_asks_voltage: "called ''get_voltage'' (final g d) = 0"
  by (cases rule: run_paths [where g = g and d = d])
     (simp_all add: final_def called_def start_def calls_def)

lemma completed_run:
  assumes "g ''print'' = None" and "outcome g d = Inr ()"
  shows "\<exists>u0 u1 v r.
           trace (final g d) =
             [(Construct [], Inr u0), (Method 0 ''connect'' [], Inr u1),
              (Method 0 ''ping'' [VInt 169], Inr v),
              (Method 0 ''send_unicast_message'' [VInt 169, VStr ''Test''], Inr r)]
         \<and> stdout (final g d) = ''Ping 169 '' @ py_str v @ [CHR 0x0A]
         \<and> objs (final g d) = 1"
  using assms
  by (cases rule: run_paths [where g = g and d = d])
     (simp_all add: final_def outcome_def ping_line_def)

lemma run_depends_on_two_names:
  assumes "g' ''NM3Driver'' = g ''NM3Driver''" and "g' ''print'' = g ''print''"
  shows "fst (run g' d) = fst (run g d) \<and> stdout (final g' d) = stdout (final g d)
    \<and> trace (final g' d) = trace (final g d) \<and> objs (final g' d) = objs (final g d)"
  using assms
  by (cases rule: run_paths [where g = g and d = d];
      cases rule: run_paths [where g = g' and d = d])
     (auto simp: final_def start_def)

lemma second_run_prints_the_same:
  "stdout (final (globals (final g d)) d) = stdout (final g d)"
  by (rule run_depends_on_two_names [THEN conjunct2, THEN conjunct1];
      cases rule: run_paths [where g = g and d = d])
     (auto simp: final_def start_def)

lemma same_answers_same_run:
  "answers (final g d1) = answers (final g d2) \<Longrightarrow> run g d1 = run g d2"
  by (cases rule: run_paths [where g = g and d = d1];
      cases rule: run_paths [where g = g and d = d2])
     (auto simp: final_def answers_def)

section \<open>The claims of the specification\<close>

subsection \<open>C1: the sequence of driver calls\<close>

text \<open>
  C1 as the specification states it: in a run in which all driver calls succeed the script
  performs one connect, one voltage query, one ping and one send, in that order. With
  \<open>NM3Driver\<close> imported and a driver whose calls all return, the run completes, every call
  made has returned, and the calls are the constructor, connect, ping and send: there is
  no voltage query.
\<close>

theorem C1_counterexample:
  "outcome imported_ns ok_driver = Inr ()
   \<and> all_succeeded (final imported_ns ok_driver)
   \<and> calls (final imported_ns ok_driver) =
       [Construct [], Method 0 ''connect'' [], Method 0 ''ping'' [VInt 169],
        Method 0 ''send_unicast_message'' [VInt 169, VStr ''Test'']]
   \<and> called ''get_voltage'' (final imported_ns ok_driver) = 0"
  by (simp add: outcome_def final_def run_ok_driver all_succeeded_def answers_def calls_def
      called_def)

text \<open>
  C1, amended: in every run in which \<open>NM3Driver\<close> is bound to the driver class, \<open>print\<close>
  is the builtin and all driver calls succeed, the script constructs the driver and then
  performs exactly one connect, exactly one ping and exactly one send_unicast_message, in
  that order, the ping and the send against the fixed peer address 169; it makes no
  voltage query.
\<close>

theorem C1_call_sequence:
  assumes "g ''NM3Driver'' = Some VDriverClass" and "g ''print'' = None"
    and "all_succeeded (final g d)"
  shows "calls (final g d) =
           [Construct [], Method 0 ''connect'' [], Method 0 ''ping'' [VInt 169],
            Method 0 ''send_unicast_message'' [VInt 169, VStr ''Test'']]
         \<and> called ''connect'' (final g d) = 1
         \<and> called ''ping'' (final g d) = 1
         \<and> called ''send_unicast_message'' (final g d) = 1
         \<and> called ''get_voltage'' (final g d) = 0"
  using assms
  by (cases rule: run_paths [where g = g and d = d])
     (simp_all add: final_def all_succeeded_def answers_def calls_def called_def)

theorem C1_call_sequence_witness:
  "imported_ns ''NM3Driver'' = Some VDriverClass \<and> imported_ns ''print'' = None
   \<and> all_succeeded (final imported_ns ok_driver)
   \<and> calls (final imported_ns ok_driver) =
       [Construct [], Method 0 ''connect'' [], Method 0 ''ping'' [VInt 169],
        Method 0 ''send_unicast_message'' [VInt 169, VStr ''Test'']]
   \<and> called ''connect'' (final imported_ns ok_driver) = 1
   \<and> called ''ping'' (final imported_ns ok_driver) = 1
   \<and> called ''send_unicast_message'' (final imported_ns ok_driver) = 1
   \<and> called ''get_voltage'' (final imported_ns ok_driver) = 0"
proof -
  have h1: "imported_ns ''NM3Driver'' = Some VDriverClass"
    and h2: "imported_ns ''print'' = None"
    by (simp_all add: imported_ns_def)
  have h3: "all_succeeded (final imported_ns ok_driver)"
    by (simp add: final_def run_ok_driver all_succeeded_def answers_def)
  show ?thesis
    using h1 h2 h3 C1_call_sequence [OF h1 h2 h3] by simp
qed

subsection \<open>C2: the name \<open>NM3Driver\<close> is not defined\<close>

text \<open>
  C2: the only import of \<open>NM3Driver\<close> is text inside the string literal, so a run that
  starts in a namespace without that name (as a module run does) fails at line 30 with a
  NameError for \<open>NM3Driver\<close>: no driver is constructed, no driver method is invoked and
  nothing is printed, whatever the driver would do.
\<close>

theorem C2_name_error:
  assumes "g ''NM3Driver'' = None"
  shows "outcome g d = Inl (NameError ''NM3Driver'')
         \<and> calls (final g d) = []
         \<and> objs (final g d) = 0
         \<and> stdout (final g d) = []
         \<and> globals (final g d) = g"
  using assms by (simp add: outcome_def final_def run_unbound start_def calls_def)

theorem C2_name_error_witness:
  "(Map.empty :: string \<rightharpoonup> pyval) ''NM3Driver'' = None
   \<and> outcome Map.empty ok_driver = Inl (NameError ''NM3Driver'')
   \<and> calls (final Map.empty ok_driver) = []
   \<and> objs (final Map.empty ok_driver) = 0
   \<and> stdout (final Map.empty ok_driver) = []
   \<and> globals (final Map.empty ok_driver) = Map.empty"
  using C2_name_error [of Map.empty ok_driver] by simp

subsection \<open>C3: what is sent\<close>

text \<open>
  C3 as the specification states it: the payload of the send is the distance string made
  from the ping result, and the value the send returns is printed. In the run with
  \<open>NM3Driver\<close> imported where the ping returns 42 and the send returns 7, the payload is
  the text \<open>Test\<close>, which is not the text of 42, and the output is the ping line alone.
\<close>

theorem C3_counterexample:
  "outcome imported_ns ok_driver = Inr ()
   \<and> trace (final imported_ns ok_driver) ! 2 = (Method 0 ''ping'' [VInt 169], Inr (VInt 42))
   \<and> trace (final imported_ns ok_driver) ! 3 =
       (Method 0 ''send_unicast_message'' [VInt 169, VStr ''Test''], Inr (VInt 7))
   \<and> py_str (VInt 42) = ''42''
   \<and> VStr ''Test'' \<noteq> VStr (py_str (VInt 42))
   \<and> stdout (final imported_ns ok_driver) = ''Ping 169 42'' @ [CHR 0x0A]"
  by (simp add: outcome_def final_def run_ok_driver dec_nat.simps digit_def)

text \<open>
  C3, amended: in every successful run (with \<open>print\<close> the builtin) the send goes to the
  address used for the ping, 169; its payload is the fixed text \<open>Test\<close>, whatever the
  ping returned; and the value returned by send_unicast_message is discarded: the output
  is the ping line alone.
\<close>

theorem C3_send_arguments:
  assumes "g ''print'' = None" and "outcome g d = Inr ()"
  shows "\<exists>v r. trace (final g d) ! 2 = (Method 0 ''ping'' [VInt 169], Inr v)
           \<and> trace (final g d) ! 3 =
               (Method 0 ''send_unicast_message'' [VInt 169, VStr ''Test''], Inr r)
           \<and> length (trace (final g d)) = 4
           \<and> stdout (final g d) = ''Ping 169 '' @ py_str v @ [CHR 0x0A]"
proof -
  from completed_run [OF assms] obtain u0 u1 v r where
    "trace (final g d) =
       [(Construct [], Inr u0), (Method 0 ''connect'' [], Inr u1),
        (Method 0 ''ping'' [VInt 169], Inr v),
        (Method 0 ''send_unicast_message'' [VInt 169, VStr ''Test''], Inr r)]"
    and "stdout (final g d) = ''Ping 169 '' @ py_str v @ [CHR 0x0A]"
    by blast
  then show ?thesis by simp
qed

theorem C3_send_arguments_witness:
  "imported_ns ''print'' = None \<and> outcome imported_ns ok_driver = Inr ()
   \<and> (\<exists>v r. trace (final imported_ns ok_driver) ! 2 = (Method 0 ''ping'' [VInt 169], Inr v)
         \<and> trace (final imported_ns ok_driver) ! 3 =
             (Method 0 ''send_unicast_message'' [VInt 169, VStr ''Test''], Inr r)
         \<and> length (trace (final imported_ns ok_driver)) = 4
         \<and> stdout (final imported_ns ok_driver) = ''Ping 169 '' @ py_str v @ [CHR 0x0A])"
proof -
  have h1: "imported_ns ''print'' = None"
    by (simp add: imported_ns_def)
  have h2: "outcome imported_ns ok_driver = Inr ()"
    by (simp add: outcome_def run_ok_driver)
  show ?thesis
    using h1 h2 C3_send_arguments [OF h1 h2] by blast
qed

subsection \<open>C4: the supply voltage\<close>

text \<open>
  C4 as the specification states it: a successful run calls get_voltage and prints the
  voltage before ranging. In the successful run against a driver that would answer a
  voltage query with 3.3, get_voltage is not called and the output is the ping line.
\<close>

theorem C4_counterexample:
  "outcome imported_ns ok_driver = Inr ()
   \<and> ok_driver [Construct [], Method 0 ''connect'' []] (Method 0 ''get_voltage'' []) =
       Inr (VFloat ''3.3'')
   \<and> called ''get_voltage'' (final imported_ns ok_driver) = 0
   \<and> stdout (final imported_ns ok_driver) = ''Ping 169 42'' @ [CHR 0x0A]"
  by (simp add: outcome_def final_def run_ok_driver called_def calls_def ok_driver_def)

text \<open>
  C4, amended: in every successful run (with \<open>print\<close> the builtin) the script makes no
  get_voltage call and prints no voltage: the ranging operation is the call right after
  connect, and the whole output is the one line \<open>Ping 169\<close> followed by the text of the
  ping result.
\<close>

theorem C4_no_voltage_query:
  assumes "g ''print'' = None" and "outcome g d = Inr ()"
  shows "called ''get_voltage'' (final g d) = 0
         \<and> calls (final g d) ! 1 = Method 0 ''connect'' []
         \<and> calls (final g d) ! 2 = Method 0 ''ping'' [VInt 169]
         \<and> (\<exists>v. answers (final g d) ! 2 = Inr v
                \<and> stdout (final g d) = ''Ping 169 '' @ py_str v @ [CHR 0x0A])"
proof -
  from completed_run [OF assms] obtain u0 u1 v r where
    "trace (final g d) =
       [(Construct [], Inr u0), (Method 0 ''connect'' [], Inr u1),
        (Method 0 ''ping'' [VInt 169], Inr v),
        (Method 0 ''send_unicast_message'' [VInt 169, VStr ''Test''], Inr r)]"
    and "stdout (final g d) = ''Ping 169 '' @ py_str v @ [CHR 0x0A]"
    by blast
  then show ?thesis by (simp add: called_def calls_def answers_def)
qed

theorem C4_no_voltage_query_witness:
  "imported_ns ''print'' = None \<and> outcome imported_ns ok_driver = Inr ()
   \<and> called ''get_voltage'' (final imported_ns ok_driver) = 0
   \<and> calls (final imported_ns ok_driver) ! 1 = Method 0 ''connect'' []
   \<and> calls (final imported_ns ok_driver) ! 2 = Method 0 ''ping'' [VInt 169]
   \<and> (\<exists>v. answers (final imported_ns ok_driver) ! 2 = Inr v
          \<and> stdout (final imported_ns ok_driver) = ''Ping 169 '' @ py_str v @ [CHR 0x0A])"
proof -
  have h1: "imported_ns ''print'' = None"
    by (simp add: imported_ns_def)
  have h2: "outcome imported_ns ok_driver = Inr ()"
    by (simp add: outcome_def run_ok_driver)
  show ?thesis
    using h1 h2 C4_no_voltage_query [OF h1 h2] by blast
qed

subsection \<open>C5: a failing connect\<close>

text \<open>
  C5: in every run in which the connect call raises, connect is the last driver call
  (no get_voltage, ping or send_unicast_message follows), nothing is printed, and the run
  ends with the error that connect raised.
\<close>

theorem C5_connect_failure_halts:
  assumes "(c, Inl e) \<in> set (trace (final g d))" and "method_of c = ''connect''"
  shows "calls (final g d) = [Construct [], Method 0 ''connect'' []]
         \<and> stdout (final g d) = []
         \<and> outcome g d = Inl e"
  using assms
  by (cases rule: run_paths [where g = g and d = d])
     (auto simp: final_def outcome_def start_def calls_def)

theorem C5_connect_failure_halts_witness:
  "(Method 0 ''connect'' [], Inl (DriverError ''OSError''))
     \<in> set (trace (final imported_ns no_link_driver))
   \<and> method_of (Method 0 ''connect'' []) = ''connect''
   \<and> calls (final imported_ns no_link_driver) = [Construct [], Method 0 ''connect'' []]
   \<and> stdout (final imported_ns no_link_driver) = []
   \<and> outcome imported_ns no_link_driver = Inl (DriverError ''OSError'')"
proof -
  have h1: "(Method 0 ''connect'' [], Inl (DriverError ''OSError''))
              \<in> set (trace (final imported_ns no_link_driver))"
    by (simp add: final_def run_no_link_driver)
  have h2: "method_of (Method 0 ''connect'' []) = ''connect''"
    by simp
  show ?thesis
    using h1 h2 C5_connect_failure_halts [OF h1 h2] by simp
qed

subsection \<open>C6: errors are not caught\<close>

text \<open>
  C6: whichever driver call raises, and whatever it raises, the script does not catch
  it: that call is the last one of the run and the run ends with that same error.
\<close>

theorem C6_errors_propagate:
  assumes "(c, Inl e) \<in> set (trace (final g d))"
  shows "outcome g d = Inl e \<and> last (trace (final g d)) = (c, Inl e)"
  using assms
  by (cases rule: run_paths [where g = g and d = d])
     (auto simp: final_def outcome_def start_def)

theorem C6_errors_propagate_witness:
  "(Method 0 ''ping'' [VInt 169], Inl (DriverError ''timeout''))
     \<in> set (trace (final imported_ns deaf_driver))
   \<and> outcome imported_ns deaf_driver = Inl (DriverError ''timeout'')
   \<and> last (trace (final imported_ns deaf_driver)) =
       (Method 0 ''ping'' [VInt 169], Inl (DriverError ''timeout''))"
proof -
  have h: "(Method 0 ''ping'' [VInt 169], Inl (DriverError ''timeout''))
             \<in> set (trace (final imported_ns deaf_driver))"
    by (simp add: final_def run_deaf_driver)
  show ?thesis
    using h C6_errors_propagate [OF h] by simp
qed

subsection \<open>C7: the printed distance\<close>

text \<open>
  C7: whatever value the ping call returns, the text printed for it is \<open>str\<close> of that
  value, once and unchanged: the output is the label \<open>Ping 169\<close>, a space, that text and
  a newline (\<open>print\<close> being the builtin).
\<close>

theorem C7_printed_distance:
  assumes "g ''print'' = None" and "(c, Inr v) \<in> set (trace (final g d))"
    and "method_of c = ''ping''"
  shows "stdout (final g d) = ''Ping 169 '' @ py_str v @ [CHR 0x0A]"
  using assms
  by (cases rule: run_paths [where g = g and d = d])
     (auto simp: final_def start_def ping_line_def)

theorem C7_printed_distance_witness:
  "imported_ns ''print'' = None
   \<and> (Method 0 ''ping'' [VInt 169], Inr (VInt 42)) \<in> set (trace (final imported_ns ok_driver))
   \<and> method_of (Method 0 ''ping'' [VInt 169]) = ''ping''
   \<and> stdout (final imported_ns ok_driver) = ''Ping 169 '' @ py_str (VInt 42) @ [CHR 0x0A]
   \<and> py_str (VInt 42) = ''42''"
proof -
  have h1: "imported_ns ''print'' = None"
    by (simp add: imported_ns_def)
  have h2: "(Method 0 ''ping'' [VInt 169], Inr (VInt 42))
              \<in> set (trace (final imported_ns ok_driver))"
    by (simp add: final_def run_ok_driver)
  have h3: "method_of (Method 0 ''ping'' [VInt 169]) = ''ping''"
    by simp
  have "py_str (VInt 42) = ''42''"
    by (simp add: dec_nat.simps digit_def)
  then show ?thesis
    using h1 h2 h3 C7_printed_distance [OF h1 h2 h3] by simp
qed

subsection \<open>C8: the output is a function of the driver's answers\<close>

text \<open>
  C8: two runs from the same namespace against drivers that give the same answers print
  the same text and end the same way; and a second run, started in the namespace the
  first one left behind, prints what the first one printed: the name \<open>pico\<close> that a run
  leaves bound does not reach the next run's output.
\<close>

theorem C8_output_determined:
  assumes "answers (final g d1) = answers (final g d2)"
  shows "stdout (final g d1) = stdout (final g d2)
         \<and> outcome g d1 = outcome g d2
         \<and> stdout (final (globals (final g d1)) d1) = stdout (final g d1)"
  using same_answers_same_run [OF assms] second_run_prints_the_same [of g d1]
  by (simp add: final_def outcome_def)

theorem C8_output_determined_witness:
  "answers (final imported_ns ok_driver) = answers (final imported_ns low_battery_driver)
   \<and> ok_driver [] (Method 0 ''get_voltage'' []) \<noteq> low_battery_driver [] (Method 0 ''get_voltage'' [])
   \<and> stdout (final imported_ns ok_driver) = stdout (final imported_ns low_battery_driver)
   \<and> outcome imported_ns ok_driver = outcome imported_ns low_battery_driver
   \<and> stdout (final (globals (final imported_ns ok_driver)) ok_driver) =
       stdout (final imported_ns ok_driver)"
proof -
  have h: "answers (final imported_ns ok_driver) = answers (final imported_ns low_battery_driver)"
    by (simp add: final_def run_low_battery_driver)
  have "ok_driver [] (Method 0 ''get_voltage'' []) \<noteq> low_battery_driver [] (Method 0 ''get_voltage'' [])"
    by (simp add: ok_driver_def low_battery_driver_def)
  then show ?thesis
    using h C8_output_determined [OF h] by simp
qed

subsection \<open>C9: one driver object\<close>

text \<open>
  C9 says that exactly one driver object is constructed during a run. Line 30 is there to
  construct it, but the import it needs is text inside the string literal: a run of the
  module from a fresh namespace ends at line 30 with a NameError, having constructed no
  driver object and made no driver call, whatever the driver.
\<close>

theorem C9_fresh_run_constructs_no_driver:
  "outcome Map.empty d = Inl (NameError ''NM3Driver'')
   \<and> objs (final Map.empty d) = 0
   \<and> called ''NM3Driver'' (final Map.empty d) = 0
   \<and> calls (final Map.empty d) = []"
  by (simp add: outcome_def final_def run_fresh start_def called_def calls_def)

text \<open>
  With \<open>NM3Driver\<close> imported and a constructor that returns, the run does construct one
  driver object and makes every method call on it.
\<close>

lemma one_driver_when_imported:
  assumes "g ''NM3Driver'' = Some VDriverClass" and "g ''print'' = None"
    and "d [] (Construct []) = Inr u"
  shows "objs (final g d) = 1 \<and> called ''NM3Driver'' (final g d) = 1
         \<and> list_all (\<lambda>c. receiver_of c = None \<or> receiver_of c = Some 0) (calls (final g d))"
  using assms
  by (cases rule: run_paths [where g = g and d = d])
     (simp_all add: final_def start_def called_def calls_def)

subsection \<open>C10: the string literal\<close>

text \<open>
  C10: the statement of lines 12 to 29 evaluates a string constant and drops it. From any
  state it returns normally and leaves the state as it was (namespace, output, driver
  calls, driver objects); the script runs as its last four statements alone would; the
  names that only the text in the literal would bind are bound after a run exactly as
  before it; and get_voltage, which only that text mentions, is never called.
\<close>

theorem C10_literal_has_no_effect:
  "stmt_literal s = (Inr (), s)
   \<and> main d = exec [stmt_construct d, stmt_connect d, stmt_ping d, stmt_send d]
   \<and> map (globals (final g d)) literal_names = map g literal_names
   \<and> called ''get_voltage'' (final g d) = 0"
proof -
  have lit: "stmt_literal t = (Inr (), t)" for t
    by (simp add: stmt_literal_def expr_stmt_def lit_def bind_def ret_def)
  have "main d t = exec [stmt_construct d, stmt_connect d, stmt_ping d, stmt_send d] t" for t
    by (simp add: main_def bind_def lit)
  then have same: "main d = exec [stmt_construct d, stmt_connect d, stmt_ping d, stmt_send d]"
    by (rule ext)
  have names: "map (globals (final g d)) literal_names = map g literal_names"
    by (cases rule: run_paths [where g = g and d = d])
       (simp_all add: final_def start_def literal_names_def)
  show ?thesis
    using lit same names never_asks_voltage by simp
qed

end
